theory Spec2Isabelle
  imports Complex_Main "HOL-Library.Sublist"
begin

section \<open>The chat component of \<^verbatim>\<open>src/App.jsx\<close>\<close>

text \<open>
  The component keeps four pieces of state (the selected model, the text of the input
  field, the conversation and the cost ledger) and has two functions: \<^verbatim>\<open>sendMessage\<close>,
  which appends the user's turn, calls the provider and appends the reply or the error,
  and \<^verbatim>\<open>callApi\<close>, a \<^verbatim>\<open>switch\<close> over the provider key inside one
  \<^verbatim>\<open>try/catch\<close>.

  What the embedding fixes:
  \<^item> The network is a parameter: a function from the request that is issued to its
    outcome. \<^verbatim>\<open>callApi\<close> returns, next to its result, the list of requests it
    issued, so that "no network call" is the empty list.
  \<^item> Exceptions are values: \<^verbatim>\<open>callApi\<close> returns \<open>Inl\<close> of the thrown error.
  \<^item> \<^verbatim>\<open>sendMessage\<close> is suspended at its \<^verbatim>\<open>await\<close>: it is modelled in two halves,
    the part that runs when the user submits and the part that runs when the call
    settles. Between the two, other events of the user interface may happen, another
    submission included, since nothing disables the input while a call is in flight.
  \<^item> \<^verbatim>\<open>console.log\<close> and \<^verbatim>\<open>console.error\<close> are left out.
\<close>

subsection \<open>Numbers and strings\<close>

text \<open>
  A JavaScript number is modelled by the real it denotes if it is finite, and is
  otherwise one of the two infinities or \<open>NaN\<close>. \<^verbatim>\<open>parseFloat\<close> yields \<open>NaN\<close> for an
  absent or unparsable configuration entry and an infinity for the text "Infinity" or a
  literal beyond the range of a double, as does a JSON number beyond that range, and the
  code passes them all on.

  Of the rounding of a double, the model has the gradual underflow: a result below
  \<open>1 / 2 ^ 1022\<close> in magnitude is rounded to the nearest multiple of \<open>1 / 2 ^ 1074\<close>, a
  tie to the even one. A result of larger magnitude is kept exact: the rounding of the
  mantissa to 53 bits, the overflow of a result to an infinity and the sign of zero are
  not modelled.
\<close>

datatype js_number = Num real | PInf | NInf | NaN

definition round_even :: "real \<Rightarrow> int" where
  "round_even r =
     (let f = \<lfloor>r\<rfloor>; d = r - of_int f
      in if d < 1 / 2 then f else if 1 / 2 < d then f + 1 else if even f then f else f + 1)"

definition underflow :: "real \<Rightarrow> real" where
  "underflow x =
     (if 1 / 2 ^ 1022 \<le> \<bar>x\<bar> then x else of_int (round_even (x * 2 ^ 1074)) / 2 ^ 1074)"

fun js_add :: "js_number \<Rightarrow> js_number \<Rightarrow> js_number" where
  "js_add (Num a) (Num b) = Num (underflow (a + b))"
| "js_add NaN _ = NaN"
| "js_add _ NaN = NaN"
| "js_add PInf NInf = NaN"
| "js_add NInf PInf = NaN"
| "js_add PInf _ = PInf"
| "js_add _ PInf = PInf"
| "js_add NInf _ = NInf"
| "js_add _ NInf = NInf"

text \<open>The product of an infinity and zero is \<open>NaN\<close>; otherwise the signs multiply.\<close>

fun js_neg :: "js_number \<Rightarrow> js_number" where
  "js_neg (Num a) = Num (- a)"
| "js_neg PInf = NInf"
| "js_neg NInf = PInf"
| "js_neg NaN = NaN"

fun times_infinity :: "js_number \<Rightarrow> js_number" where
  "times_infinity (Num a) = (if a = 0 then NaN else if 0 < a then PInf else NInf)"
| "times_infinity PInf = PInf"
| "times_infinity NInf = NInf"
| "times_infinity NaN = NaN"

fun js_mul :: "js_number \<Rightarrow> js_number \<Rightarrow> js_number" where
  "js_mul (Num a) (Num b) = Num (underflow (a * b))"
| "js_mul NaN _ = NaN"
| "js_mul _ NaN = NaN"
| "js_mul PInf y = times_infinity y"
| "js_mul x PInf = times_infinity x"
| "js_mul NInf y = js_neg (times_infinity y)"
| "js_mul x NInf = js_neg (times_infinity x)"

text \<open>
  Division by a positive numeric literal (the code divides by \<^verbatim>\<open>1000000\<close> only): an
  infinity stays what it is.
\<close>

fun js_div :: "js_number \<Rightarrow> real \<Rightarrow> js_number" where
  "js_div (Num a) d = Num (underflow (a / d))"
| "js_div PInf d = PInf"
| "js_div NInf d = NInf"
| "js_div NaN d = NaN"


text \<open>
  A string is a list of code units, of which this model has the 8-bit ones; the characters
  that \<^verbatim>\<open>String.prototype.trim\<close> removes are, in that range, tab, line feed,
  vertical tab, form feed, carriage return, space and the no-break space.
\<close>

definition isWhiteSpace :: "char \<Rightarrow> bool" where
  "isWhiteSpace c \<longleftrightarrow> c \<in> set [CHR 0x09, CHR 0x0A, CHR 0x0B, CHR 0x0C, CHR 0x0D, CHR 0x20, CHR 0xA0]"

definition trim :: "string \<Rightarrow> string" where
  "trim s = rev (dropWhile isWhiteSpace (rev (dropWhile isWhiteSpace s)))"

text \<open>A value inside a template literal: \<^verbatim>\<open>undefined\<close> prints as its name.\<close>

fun template :: "string option \<Rightarrow> string" where
  "template (Some s) = s"
| "template None = ''undefined''"

subsection \<open>Messages, models, configuration\<close>

record message =
  role :: string
  content :: string

record model =
  name :: string
  key :: string
  color :: string

definition models :: "model list" where
  "models =
    [\<lparr>name = ''Llama 3 Groq 70B Tool Use'', key = ''LLAMA'', color = ''#007AFF''\<rparr>,
     \<lparr>name = ''ChatGPT 4.0'', key = ''CHATGPT'', color = ''#34C759''\<rparr>,
     \<lparr>name = ''Claude 3.5 Sonnet'', key = ''CLAUDE'', color = ''#5856D6''\<rparr>,
     \<lparr>name = ''Gemini 1.5 PRO'', key = ''GEMINI'', color = ''#FF9500''\<rparr>]"

text \<open>
  \<^verbatim>\<open>import.meta.env\<close>, seen through the two lookups of \<^verbatim>\<open>callApi\<close>:
  \<open>apiKeyOf k\<close> is the entry \<^verbatim>\<open>VITE_<k>_API_KEY\<close> (\<open>None\<close> when absent) and
  \<open>pricePerMillionOf k\<close> is \<^verbatim>\<open>parseFloat\<close> of the entry
  \<^verbatim>\<open>VITE_<k>_PRICE_PER_MILLION\<close>.
\<close>

record env =
  apiKeyOf :: "string \<Rightarrow> string option"
  pricePerMillionOf :: "string \<Rightarrow> js_number"

subsection \<open>Requests, responses, errors\<close>

datatype part = Part (part_text: string)

datatype gemini_content = GeminiContent (gemini_role: string) (parts: "part list")

datatype post_data =
    ChatCompletion (chat_model: string) (chat_messages: "message list")
      (temperature: "real option") (max_tokens: "nat option")
  | GenerateContent (contents: "gemini_content list")

text \<open>
  \<open>AxiosPost url data headers params\<close> is \<^verbatim>\<open>axios.post(url, data, {headers, params})\<close>;
  \<open>AnthropicCreate apiKey model max_tokens temperature messages\<close> is
  \<^verbatim>\<open>new Anthropic({apiKey, ...}).messages.create({model, max_tokens, temperature, messages})\<close>.
\<close>

datatype request =
    AxiosPost string post_data "(string \<times> string) list" "(string \<times> string option) list"
  | AnthropicCreate "string option" string nat real "message list"

text \<open>
  Reading a chain of properties of the response either yields a value or throws a
  \<^verbatim>\<open>TypeError\<close> (a property of \<^verbatim>\<open>undefined\<close>), whose message is the engine's. A
  response is given by what each chain that the code reads yields:
  \<^verbatim>\<open>response.data.usage.total_tokens\<close>, \<^verbatim>\<open>response.data.choices[0].message.content\<close>,
  \<^verbatim>\<open>response.usage.input_tokens\<close>, \<^verbatim>\<open>response.usage.output_tokens\<close>,
  \<^verbatim>\<open>response.content[0].text\<close> and
  \<^verbatim>\<open>response.data.candidates[0].content.parts[0].text\<close>.
\<close>

datatype 'a read = Read 'a | Throws string

record response =
  usage_total_tokens :: "js_number read"
  choices0_message_content :: "string read"
  usage_input_tokens :: "js_number read"
  usage_output_tokens :: "js_number read"
  content0_text :: "string read"
  candidates0_content_parts0_text :: "string read"

text \<open>
  A thrown error: \<open>err_response\<close> is \<^verbatim>\<open>JSON.stringify(error.response.data)\<close> when
  \<^verbatim>\<open>error.response\<close> is set (axios sets it on a status outside 2xx), \<open>err_message\<close> is
  \<^verbatim>\<open>error.message\<close>.
\<close>

datatype js_error = JsError (err_response: "string option") (err_message: string)

definition Error :: "string \<Rightarrow> js_error" where
  "Error m = JsError None m"

datatype outcome = Resolved response | Rejected js_error

type_synonym network = "request \<Rightarrow> outcome"

record api_result =
  message :: string
  cost :: js_number

fun read_then :: "'a read \<Rightarrow> ('a \<Rightarrow> js_error + 'b) \<Rightarrow> js_error + 'b" where
  "read_then (Read v) f = f v"
| "read_then (Throws m) f = Inl (Error m)"

subsection \<open>\<^verbatim>\<open>callApi\<close>\<close>

definition llamaRequest :: "env \<Rightarrow> message list \<Rightarrow> request" where
  "llamaRequest e messageHistory =
     AxiosPost ''https://api.groq.com/openai/v1/chat/completions''
       (ChatCompletion ''llama3-groq-70b-8192-tool-use-preview'' messageHistory (Some 0.5) (Some 4096))
       [(''Authorization'', ''Bearer '' @ template (apiKeyOf e ''LLAMA'')),
        (''Content-Type'', ''application/json'')]
       []"

definition chatgptRequest :: "env \<Rightarrow> message list \<Rightarrow> request" where
  "chatgptRequest e messageHistory =
     AxiosPost ''https://api.openai.com/v1/chat/completions''
       (ChatCompletion ''gpt-4'' messageHistory None None)
       [(''Authorization'', ''Bearer '' @ template (apiKeyOf e ''CHATGPT''))]
       []"

definition claudeRequest :: "env \<Rightarrow> message list \<Rightarrow> request" where
  "claudeRequest e messageHistory =
     AnthropicCreate (apiKeyOf e ''CLAUDE'') ''claude-3-sonnet-20240229'' 1000 0.3 messageHistory"

definition geminiMessage :: "message \<Rightarrow> gemini_content" where
  "geminiMessage msg =
     GeminiContent (if role msg = ''assistant'' then ''model'' else ''user'') [Part (content msg)]"

definition geminiRequest :: "env \<Rightarrow> message list \<Rightarrow> request" where
  "geminiRequest e messageHistory =
     AxiosPost ''https://generativelanguage.googleapis.com/v1beta/models/gemini-pro:generateContent''
       (GenerateContent (map geminiMessage messageHistory))
       [(''Content-Type'', ''application/json'')]
       [(''key'', apiKeyOf e ''GEMINI'')]"

text \<open>\<^verbatim>\<open>(tokenCount / 1000000) * pricePerMillion\<close>\<close>

definition costOf :: "js_number \<Rightarrow> js_number \<Rightarrow> js_number" where
  "costOf tokenCount pricePerMillion = js_mul (js_div tokenCount 1000000) pricePerMillion"

text \<open>The two OpenAI-shaped cases read the same two chains of the response.\<close>

definition chatCase :: "network \<Rightarrow> request \<Rightarrow> js_number \<Rightarrow> request list \<times> (js_error + api_result)" where
  "chatCase net req pricePerMillion =
     ([req],
      case net req of
        Rejected err \<Rightarrow> Inl err
      | Resolved response \<Rightarrow>
          read_then (usage_total_tokens response) (\<lambda>tokenCount.
          read_then (choices0_message_content response) (\<lambda>c.
            Inr \<lparr>message = c, cost = costOf tokenCount pricePerMillion\<rparr>)))"

definition claudeCase :: "network \<Rightarrow> request \<Rightarrow> js_number \<Rightarrow> request list \<times> (js_error + api_result)" where
  "claudeCase net req pricePerMillion =
     ([req],
      case net req of
        Rejected err \<Rightarrow> Inl err
      | Resolved response \<Rightarrow>
          read_then (usage_input_tokens response) (\<lambda>input_tokens.
          read_then (usage_output_tokens response) (\<lambda>output_tokens.
          read_then (content0_text response) (\<lambda>t.
            Inr \<lparr>message = t,
                 cost = costOf (js_add input_tokens output_tokens) pricePerMillion\<rparr>))))"

text \<open>
  \<^verbatim>\<open>messageHistory.reduce((acc, msg) => acc + msg.content.length, 0) * 1.3\<close>
\<close>

definition geminiTokenCount :: "message list \<Rightarrow> js_number" where
  "geminiTokenCount messageHistory =
     js_mul (Num (real (foldl (\<lambda>acc msg. acc + length (content msg)) 0 messageHistory))) (Num 1.3)"

definition geminiCase :: "network \<Rightarrow> request \<Rightarrow> message list \<Rightarrow> js_number \<Rightarrow> request list \<times> (js_error + api_result)" where
  "geminiCase net req messageHistory pricePerMillion =
     ([req],
      case net req of
        Rejected err \<Rightarrow> Inl err
      | Resolved response \<Rightarrow>
          read_then (candidates0_content_parts0_text response) (\<lambda>t.
            Inr \<lparr>message = t,
                 cost = costOf (geminiTokenCount messageHistory) pricePerMillion\<rparr>))"

text \<open>The body of the \<^verbatim>\<open>try\<close>: the \<^verbatim>\<open>switch\<close> over the key.\<close>

definition callApi_try :: "env \<Rightarrow> network \<Rightarrow> string \<Rightarrow> message list \<Rightarrow> request list \<times> (js_error + api_result)" where
  "callApi_try e net modelKey messageHistory =
     (let pricePerMillion = pricePerMillionOf e modelKey in
      if modelKey = ''LLAMA'' then chatCase net (llamaRequest e messageHistory) pricePerMillion
      else if modelKey = ''CHATGPT'' then chatCase net (chatgptRequest e messageHistory) pricePerMillion
      else if modelKey = ''CLAUDE'' then claudeCase net (claudeRequest e messageHistory) pricePerMillion
      else if modelKey = ''GEMINI'' then
        geminiCase net (geminiRequest e messageHistory) messageHistory pricePerMillion
      else ([], Inl (Error ''Invalid model selected'')))"

text \<open>
  The \<^verbatim>\<open>catch\<close>: whatever the \<^verbatim>\<open>try\<close> threw, the error of the \<^verbatim>\<open>default\<close> case
  included, is replaced by a new \<^verbatim>\<open>Error\<close>.
\<close>

definition failureDetail :: "js_error \<Rightarrow> string" where
  "failureDetail err = (case err_response err of Some d \<Rightarrow> d | None \<Rightarrow> err_message err)"

definition callApi :: "env \<Rightarrow> network \<Rightarrow> string \<Rightarrow> message list \<Rightarrow> request list \<times> (js_error + api_result)" where
  "callApi e net modelKey messageHistory =
     (case callApi_try e net modelKey messageHistory of
        (reqs, Inr r) \<Rightarrow> (reqs, Inr r)
      | (reqs, Inl err) \<Rightarrow>
          (reqs, Inl (Error (''Failed to get response from '' @ modelKey @ '': '' @ failureDetail err))))"

subsection \<open>The component's state and \<^verbatim>\<open>sendMessage\<close>\<close>

record state =
  selectedModel :: model
  input :: string
  messages :: "message list"
  apiCosts :: "string \<rightharpoonup> js_number"

definition initialState :: state where
  "initialState =
     \<lparr>selectedModel = hd models, input = '''', messages = [],
      apiCosts = [''LLAMA'' \<mapsto> Num 0, ''CHATGPT'' \<mapsto> Num 0, ''CLAUDE'' \<mapsto> Num 0, ''GEMINI'' \<mapsto> Num 0]\<rparr>"

text \<open>
  \<^verbatim>\<open>{...prevCosts, [k]: prevCosts[k] + c}\<close>: an absent entry is \<^verbatim>\<open>undefined\<close>, and the
  sum is \<open>NaN\<close>.
\<close>

definition addCost :: "(string \<rightharpoonup> js_number) \<Rightarrow> string \<Rightarrow> js_number \<Rightarrow> (string \<rightharpoonup> js_number)" where
  "addCost prevCosts k c =
     prevCosts(k \<mapsto> (case prevCosts k of Some v \<Rightarrow> js_add v c | None \<Rightarrow> NaN))"

text \<open>
  \<^verbatim>\<open>sendMessage\<close> up to its \<^verbatim>\<open>await\<close>. On blank input it returns at once. Otherwise
  it shows the user's turn, clears the input field and calls \<^verbatim>\<open>callApi\<close>, which issues
  its request. What is left to do when the call settles closes over the
  \<^verbatim>\<open>selectedModel\<close> and the \<^verbatim>\<open>updatedMessages\<close> of this moment; the third field is
  what the promise of \<^verbatim>\<open>callApi\<close> settles with.
\<close>

record pending_call =
  closure_selectedModel :: model
  closure_updatedMessages :: "message list"
  promise :: "js_error + api_result"

definition sendMessage_begin :: "env \<Rightarrow> network \<Rightarrow> state \<Rightarrow> request list \<times> state \<times> pending_call option" where
  "sendMessage_begin e net st =
     (if trim (input st) = [] then ([], st, None)
      else
        let userMessage = \<lparr>role = ''user'', content = input st\<rparr>;
            updatedMessages = messages st @ [userMessage];
            st1 = st\<lparr>messages := updatedMessages, input := ''''\<rparr>
        in case callApi e net (key (selectedModel st)) updatedMessages of
             (reqs, settled) \<Rightarrow>
               (reqs, st1,
                Some \<lparr>closure_selectedModel = selectedModel st,
                      closure_updatedMessages = updatedMessages,
                      promise = settled\<rparr>))"

text \<open>
  \<^verbatim>\<open>sendMessage\<close> from its \<^verbatim>\<open>await\<close> on, in the state of the moment the call settles.
  \<^verbatim>\<open>setMessages\<close> is given a list built from the closure, so it replaces whatever the
  conversation has become; \<^verbatim>\<open>setApiCosts\<close> is given a function of the previous ledger,
  so it updates the ledger of that moment.
\<close>

definition sendMessage_resume :: "pending_call \<Rightarrow> state \<Rightarrow> state" where
  "sendMessage_resume c st =
     (case promise c of
        Inr response \<Rightarrow>
          st\<lparr>messages := closure_updatedMessages c @ [\<lparr>role = ''assistant'', content = message response\<rparr>],
             apiCosts := addCost (apiCosts st) (key (closure_selectedModel c)) (cost response)\<rparr>
      | Inl error \<Rightarrow>
          st\<lparr>messages := closure_updatedMessages c @
                [\<lparr>role = ''assistant'', content = ''Error: '' @ err_message error\<rparr>]\<rparr>)"

text \<open>A \<^verbatim>\<open>sendMessage\<close> that settles before anything else happens.\<close>

definition sendMessage :: "env \<Rightarrow> network \<Rightarrow> state \<Rightarrow> request list \<times> state" where
  "sendMessage e net st =
     (case sendMessage_begin e net st of
        (reqs, st1, None) \<Rightarrow> (reqs, st1)
      | (reqs, st1, Some c) \<Rightarrow> (reqs, sendMessage_resume c st1))"

text \<open>
  The running component: its state and the calls in flight. Its events are typing into
  the input field, a click on the card of the \<open>i\<close>-th model (there is a card for each
  element of \<open>models\<close> and no other), a submission, which carries the network it meets,
  and the settling of the \<open>n\<close>-th call in flight. A call that issued no request (the
  \<^verbatim>\<open>default\<close> case throws before any \<^verbatim>\<open>await\<close> of \<^verbatim>\<open>callApi\<close>) settles before the
  next event.
\<close>

record app =
  ui :: state
  inflight :: "pending_call list"

definition initialApp :: app where
  "initialApp = \<lparr>ui = initialState, inflight = []\<rparr>"

datatype event = SetInput string | SelectModel nat | Submit network | Settle nat

fun step :: "env \<Rightarrow> app \<Rightarrow> event \<Rightarrow> request list \<times> app" where
  "step e a (SetInput s) = ([], a\<lparr>ui := (ui a)\<lparr>input := s\<rparr>\<rparr>)"
| "step e a (SelectModel i) =
     ([], if i < length models then a\<lparr>ui := (ui a)\<lparr>selectedModel := models ! i\<rparr>\<rparr> else a)"
| "step e a (Submit net) =
     (case sendMessage_begin e net (ui a) of
        (reqs, st1, None) \<Rightarrow> (reqs, a\<lparr>ui := st1\<rparr>)
      | (reqs, st1, Some c) \<Rightarrow>
          if reqs = [] then (reqs, a\<lparr>ui := sendMessage_resume c st1\<rparr>)
          else (reqs, a\<lparr>ui := st1, inflight := inflight a @ [c]\<rparr>))"
| "step e a (Settle n) =
     ([], if n < length (inflight a)
          then a\<lparr>ui := sendMessage_resume (inflight a ! n) (ui a),
                 inflight := take n (inflight a) @ drop (Suc n) (inflight a)\<rparr>
          else a)"

fun run :: "env \<Rightarrow> app \<Rightarrow> event list \<Rightarrow> request list \<times> app" where
  "run e a [] = ([], a)"
| "run e a (ev # evs) =
     (case step e a ev of (reqs, a') \<Rightarrow>
        (case run e a' evs of (reqs', a'') \<Rightarrow> (reqs @ reqs', a'')))"

subsection \<open>Vocabulary of the properties\<close>

text \<open>
  The four known provider ids: the keys of \<open>models\<close>, which are also the four cases
  of the \<^verbatim>\<open>switch\<close>.
\<close>

definition knownKeys :: "string list" where
  "knownKeys = [''LLAMA'', ''CHATGPT'', ''CLAUDE'', ''GEMINI'']"

text \<open>
  The specification's table of token accounting: the total reported by the provider for
  LLAMA and CHATGPT, the sum of the reported input and output counts for CLAUDE, and for
  GEMINI the sum of the character lengths of the contents of the history times 1.3. Next
  to it, the table of reply extraction.
\<close>

definition spec_tokenCount :: "string \<Rightarrow> message list \<Rightarrow> response \<Rightarrow> js_number read" where
  "spec_tokenCount providerId history r =
     (if providerId = ''CLAUDE'' then
        (case usage_input_tokens r of
           Throws m \<Rightarrow> Throws m
         | Read i \<Rightarrow> (case usage_output_tokens r of Throws m \<Rightarrow> Throws m | Read out \<Rightarrow> Read (js_add i out)))
      else if providerId = ''GEMINI'' then
        Read (Num (real (\<Sum>m\<leftarrow>history. length (content m)) * 1.3))
      else usage_total_tokens r)"

definition spec_replyText :: "string \<Rightarrow> response \<Rightarrow> string read" where
  "spec_replyText providerId r =
     (if providerId = ''CLAUDE'' then content0_text r
      else if providerId = ''GEMINI'' then candidates0_content_parts0_text r
      else choices0_message_content r)"

text \<open>
  The form of every error that leaves \<^verbatim>\<open>callApi\<close>: a plain \<^verbatim>\<open>Error\<close> (no
  \<^verbatim>\<open>response\<close> property) whose message starts with the text of the \<^verbatim>\<open>catch\<close>
  block and the provider id.
\<close>

definition isNormalizedError :: "string \<Rightarrow> js_error \<Rightarrow> bool" where
  "isNormalizedError modelKey err \<longleftrightarrow>
     err_response err = None \<and>
     prefix (''Failed to get response from '' @ modelKey @ '': '') (err_message err)"

text \<open>
  What a request carries of the conversation: the \<^verbatim>\<open>messages\<close> field of an
  OpenAI-shaped body or of the Anthropic call, the \<^verbatim>\<open>contents\<close> field of the Gemini
  body.
\<close>

definition sentMessages :: "request \<Rightarrow> message list option" where
  "sentMessages req =
     (case req of
        AxiosPost u (ChatCompletion m ms t mt) hs ps \<Rightarrow> Some ms
      | AxiosPost u (GenerateContent cs) hs ps \<Rightarrow> None
      | AnthropicCreate k m mt t ms \<Rightarrow> Some ms)"

definition sentContents :: "request \<Rightarrow> gemini_content list option" where
  "sentContents req =
     (case req of
        AxiosPost u (ChatCompletion m ms t mt) hs ps \<Rightarrow> None
      | AxiosPost u (GenerateContent cs) hs ps \<Rightarrow> Some cs
      | AnthropicCreate k m mt t ms \<Rightarrow> None)"

text \<open>
  Whether a request replays a history: the history, mapped for the Gemini body, is a
  prefix of what the request carries.
\<close>

definition replays :: "message list \<Rightarrow> request \<Rightarrow> bool" where
  "replays history req =
     (case sentMessages req of
        Some ms \<Rightarrow> prefix history ms
      | None \<Rightarrow> (case sentContents req of
                   Some cs \<Rightarrow> prefix (map geminiMessage history) cs
                 | None \<Rightarrow> False))"








text \<open>
  Events that neither submit nor settle anything, and sequences of events in which no
  submission is made while a call is in flight.
\<close>

fun quiet :: "event \<Rightarrow> bool" where
  "quiet (SetInput s) = True"
| "quiet (SelectModel i) = True"
| "quiet (Submit net) = False"
| "quiet (Settle n) = False"

fun nonOverlapping :: "env \<Rightarrow> app \<Rightarrow> event list \<Rightarrow> bool" where
  "nonOverlapping e a [] = True"
| "nonOverlapping e a (ev # evs) =
     ((case ev of Submit net \<Rightarrow> inflight a = [] | _ \<Rightarrow> True)
      \<and> nonOverlapping e (snd (step e a ev)) evs)"



definition atMostOneCall :: "app \<Rightarrow> bool" where
  "atMostOneCall a =
     (case inflight a of
        [] \<Rightarrow> True
      | [c] \<Rightarrow> messages (ui a) = closure_updatedMessages c
      | _ \<Rightarrow> False)"

subsection \<open>Concrete inputs\<close>

text \<open>
  A configuration that prices CLAUDE at 3.00 per million and has no other price, a
  response none of whose chains can be read, and the response of the specification's
  example: 10 input tokens, 5 output tokens, the text "4".
\<close>

definition claudeEnv :: env where
  "claudeEnv = \<lparr>apiKeyOf = (\<lambda>k. Some ''sk-test''), pricePerMillionOf = (\<lambda>k. if k = ''CLAUDE'' then Num 3.00 else NaN)\<rparr>"

definition noReads :: response where
  "noReads = \<lparr>usage_total_tokens = Throws ''TypeError'', choices0_message_content = Throws ''TypeError'',
     usage_input_tokens = Throws ''TypeError'', usage_output_tokens = Throws ''TypeError'',
     content0_text = Throws ''TypeError'', candidates0_content_parts0_text = Throws ''TypeError''\<rparr>"

definition claudeReply :: response where
  "claudeReply = noReads\<lparr>usage_input_tokens := Read (Num 10), usage_output_tokens := Read (Num 5), content0_text := Read ''4''\<rparr>"

text \<open>The three turns of the specification's ordering example.\<close>

definition threeTurns :: "message list" where
  "threeTurns = [\<lparr>role = ''user'', content = ''hi''\<rparr>, \<lparr>role = ''assistant'', content = ''hello''\<rparr>,
                 \<lparr>role = ''user'', content = ''again''\<rparr>]"

text \<open>A state whose input field holds a space, a tab and a space.\<close>

definition blankState :: state where
  "blankState = initialState\<lparr>input := [CHR 0x20, CHR 0x09, CHR 0x20], messages := threeTurns\<rparr>"

text \<open>
  An error of axios for a status outside 2xx, with its serialized body, and a state in
  which the question of the specification's example has been typed.
\<close>

definition status401 :: js_error where
  "status401 = JsError (Some ''{}'') ''Request failed with status code 401''"

definition askingState :: state where
  "askingState = initialState\<lparr>input := ''2+2?''\<rparr>"


definition pricedEnv :: env where
  "pricedEnv = \<lparr>apiKeyOf = (\<lambda>k. Some ''secret''), pricePerMillionOf = (\<lambda>k. Num 3)\<rparr>"


definition millionReply :: response where
  "millionReply = noReads\<lparr>usage_total_tokens := Read (Num 1000000), choices0_message_content := Read ''ok''\<rparr>"


definition askingApp :: app where
  "askingApp = \<lparr>ui = askingState, inflight = []\<rparr>"

text \<open>
  The events of two overlapping submissions, the first of which fails: "a" is submitted
  and rejected, and before that call settles "b" is submitted and answered; then both
  settle. After them, a third message is submitted.
\<close>

definition overlappingSends :: "event list" where
  "overlappingSends =
     [SetInput ''a'', Submit (\<lambda>req. Rejected status401),
      SetInput ''b'', Submit (\<lambda>req. Resolved millionReply),
      Settle 0, Settle 0]"

definition thirdSend :: "event list" where
  "thirdSend = [SetInput ''c'', Submit (\<lambda>req. Resolved millionReply)]"








section \<open>Properties\<close>

subsection \<open>Auxiliary facts about rounding\<close>

lemma round_even_of_int [simp]: "round_even (of_int n) = n"
  by (simp add: round_even_def)


lemma round_even_zero [simp]: "round_even 0 = 0"
  using round_even_of_int [of 0] by simp



lemma underflow_normal: "1 / 2 ^ 1022 \<le> \<bar>x\<bar> \<Longrightarrow> underflow x = x"
  by (simp add: underflow_def)

lemma underflow_zero [simp]: "underflow 0 = 0"
  by (simp add: underflow_def)


lemma underflow_ge1 [simp]: "1 \<le> x \<Longrightarrow> underflow x = x"
proof -
  assume "1 \<le> x"
  moreover have "1 / 2 ^ 1022 \<le> (1::real)" by simp
  ultimately have "1 / 2 ^ 1022 \<le> \<bar>x\<bar>" by linarith
  then show ?thesis by (rule underflow_normal)
qed

lemma underflow_plain: "1 / 10 ^ 12 \<le> \<bar>x\<bar> \<Longrightarrow> underflow x = x"
proof -
  assume a: "1 / 10 ^ 12 \<le> \<bar>x\<bar>"
  have "(10::real) ^ 12 \<le> 2 ^ 1022" by simp
  then have "1 / 2 ^ 1022 \<le> (1::real) / 10 ^ 12"
    by (intro divide_left_mono) simp_all
  with a have "1 / 2 ^ 1022 \<le> \<bar>x\<bar>" by linarith
  then show ?thesis by (rule underflow_normal)
qed





subsection \<open>Auxiliary facts about \<^verbatim>\<open>callApi\<close>\<close>

lemma knownKeys_models: "knownKeys = map key models"
  by (simp add: knownKeys_def models_def)

lemma foldl_content_length:
  "foldl (\<lambda>acc msg. acc + length (content msg)) a h = a + (\<Sum>m\<leftarrow>h. length (content m))"
  by (induction h arbitrary: a) auto

lemma fst_callApi: "fst (callApi e net k h) = fst (callApi_try e net k h)"
  by (simp add: callApi_def split: prod.splits sum.splits)

lemma snd_callApi:
  "snd (callApi e net k h) =
     (case snd (callApi_try e net k h) of
        Inr r \<Rightarrow> Inr r
      | Inl err \<Rightarrow> Inl (Error (''Failed to get response from '' @ k @ '': '' @ failureDetail err)))"
  by (simp add: callApi_def split: prod.splits sum.splits)

lemma callApi_try_known:
  "callApi_try e net ''LLAMA'' h = chatCase net (llamaRequest e h) (pricePerMillionOf e ''LLAMA'')"
  "callApi_try e net ''CHATGPT'' h = chatCase net (chatgptRequest e h) (pricePerMillionOf e ''CHATGPT'')"
  "callApi_try e net ''CLAUDE'' h = claudeCase net (claudeRequest e h) (pricePerMillionOf e ''CLAUDE'')"
  "callApi_try e net ''GEMINI'' h = geminiCase net (geminiRequest e h) h (pricePerMillionOf e ''GEMINI'')"
  by (simp_all add: callApi_try_def)

lemma fst_cases [simp]:
  "fst (chatCase net req p) = [req]"
  "fst (claudeCase net req p) = [req]"
  "fst (geminiCase net req h p) = [req]"
  by (simp_all add: chatCase_def claudeCase_def geminiCase_def)

lemma chatCase_ok:
  "net req = Resolved r \<Longrightarrow> usage_total_tokens r = Read t \<Longrightarrow> choices0_message_content r = Read c
   \<Longrightarrow> snd (chatCase net req p) = Inr \<lparr>message = c, cost = costOf t p\<rparr>"
  by (simp add: chatCase_def)

lemma claudeCase_ok:
  "net req = Resolved r \<Longrightarrow> usage_input_tokens r = Read i \<Longrightarrow> usage_output_tokens r = Read out
   \<Longrightarrow> content0_text r = Read c
   \<Longrightarrow> snd (claudeCase net req p) = Inr \<lparr>message = c, cost = costOf (js_add i out) p\<rparr>"
  by (simp add: claudeCase_def)

lemma geminiCase_ok:
  "net req = Resolved r \<Longrightarrow> candidates0_content_parts0_text r = Read c
   \<Longrightarrow> snd (geminiCase net req h p) = Inr \<lparr>message = c, cost = costOf (geminiTokenCount h) p\<rparr>"
  by (simp add: geminiCase_def)

lemma underflow_estimate: "underflow (real n * 1.3) = real n * 1.3"
proof (cases n)
  case 0
  then show ?thesis by simp
next
  case (Suc k)
  then have "1 \<le> real n * 1.3" by simp
  then show ?thesis by (rule underflow_ge1)
qed

lemma geminiTokenCount_sum:
  "geminiTokenCount h = Num (real (\<Sum>m\<leftarrow>h. length (content m)) * 1.3)"
proof -
  have "foldl (\<lambda>acc msg. acc + length (content msg)) 0 h = (\<Sum>m\<leftarrow>h. length (content m))"
    by (simp add: foldl_content_length)
  then show ?thesis
    by (simp only: geminiTokenCount_def js_mul.simps underflow_estimate)
qed

lemma callApi_success:
  assumes known: "modelKey \<in> set knownKeys"
    and net: "list_all (\<lambda>req. net req = Resolved r) (fst (callApi e net modelKey h))"
    and tok: "spec_tokenCount modelKey h r = Read tokenCount"
    and rep: "spec_replyText modelKey r = Read replyText"
  shows "snd (callApi e net modelKey h) =
           Inr \<lparr>message = replyText,
                cost = js_mul (js_div tokenCount 1000000) (pricePerMillionOf e modelKey)\<rparr>"
proof -
  consider "modelKey = ''LLAMA''" | "modelKey = ''CHATGPT''" | "modelKey = ''CLAUDE''" | "modelKey = ''GEMINI''"
    using known by (auto simp: knownKeys_def)
  then show ?thesis
  proof cases
    case 1
    with net have "net (llamaRequest e h) = Resolved r"
      by (simp add: fst_callApi callApi_try_known)
    with 1 tok rep show ?thesis
      by (simp add: snd_callApi callApi_try_known chatCase_ok [where r = r]
          spec_tokenCount_def spec_replyText_def costOf_def)
  next
    case 2
    with net have "net (chatgptRequest e h) = Resolved r"
      by (simp add: fst_callApi callApi_try_known)
    with 2 tok rep show ?thesis
      by (simp add: snd_callApi callApi_try_known chatCase_ok [where r = r]
          spec_tokenCount_def spec_replyText_def costOf_def)
  next
    case 3
    with net have n: "net (claudeRequest e h) = Resolved r"
      by (simp add: fst_callApi callApi_try_known)
    from 3 tok obtain i out where io: "usage_input_tokens r = Read i" "usage_output_tokens r = Read out"
      "tokenCount = js_add i out"
      by (auto simp: spec_tokenCount_def split: read.splits)
    from 3 rep have "content0_text r = Read replyText"
      by (simp add: spec_replyText_def)
    with 3 n io show ?thesis
      by (simp add: snd_callApi callApi_try_known claudeCase_ok [where r = r] costOf_def)
  next
    case 4
    with net have n: "net (geminiRequest e h) = Resolved r"
      by (simp add: fst_callApi callApi_try_known)
    from 4 tok have t: "tokenCount = geminiTokenCount h"
      by (simp add: spec_tokenCount_def geminiTokenCount_sum)
    from 4 rep have "candidates0_content_parts0_text r = Read replyText"
      by (simp add: spec_replyText_def)
    with 4 n t show ?thesis
      by (simp add: snd_callApi callApi_try_known geminiCase_ok [where r = r] costOf_def)
  qed
qed

lemma callApi_unknown:
  "modelKey \<notin> set knownKeys \<Longrightarrow>
   callApi e net modelKey h =
     ([], Inl (Error (''Failed to get response from '' @ modelKey @ '': Invalid model selected'')))"
  by (simp add: knownKeys_def callApi_def callApi_try_def failureDetail_def Error_def)

lemma sent_known:
  "sentMessages (llamaRequest e h) = Some h"
  "sentMessages (chatgptRequest e h) = Some h"
  "sentMessages (claudeRequest e h) = Some h"
  "sentContents (geminiRequest e h) = Some (map geminiMessage h)"
  by (simp_all add: sentMessages_def sentContents_def llamaRequest_def chatgptRequest_def
      claudeRequest_def geminiRequest_def)

lemma fst_callApi_known:
  "fst (callApi e net ''LLAMA'' h) = [llamaRequest e h]"
  "fst (callApi e net ''CHATGPT'' h) = [chatgptRequest e h]"
  "fst (callApi e net ''CLAUDE'' h) = [claudeRequest e h]"
  "fst (callApi e net ''GEMINI'' h) = [geminiRequest e h]"
  by (simp_all add: fst_callApi callApi_try_known)

lemma trim_blank: "list_all isWhiteSpace s \<Longrightarrow> trim s = []"
proof -
  assume "list_all isWhiteSpace s"
  then have h: "dropWhile isWhiteSpace s = []"
    by (simp add: list_all_iff)
  show ?thesis unfolding trim_def h by simp
qed




subsection \<open>Auxiliary facts about failures and \<^verbatim>\<open>sendMessage\<close>\<close>

lemma callApi_Inl_normalized:
  "snd (callApi e net k h) = Inl err \<Longrightarrow> isNormalizedError k err"
  by (auto simp: snd_callApi isNormalizedError_def Error_def split: sum.splits)

lemma cases_rejected:
  "net req = Rejected x \<Longrightarrow> snd (chatCase net req p) = Inl x"
  "net req = Rejected x \<Longrightarrow> snd (claudeCase net req p) = Inl x"
  "net req = Rejected x \<Longrightarrow> snd (geminiCase net req h p) = Inl x"
  by (simp_all add: chatCase_def claudeCase_def geminiCase_def)

lemma callApi_rejected:
  assumes known: "modelKey \<in> set knownKeys"
    and rej: "list_all (\<lambda>req. net req = Rejected x) (fst (callApi e net modelKey h))"
  shows "snd (callApi e net modelKey h) =
           Inl (Error (''Failed to get response from '' @ modelKey @ '': '' @ failureDetail x))"
proof -
  consider "modelKey = ''LLAMA''" | "modelKey = ''CHATGPT''" | "modelKey = ''CLAUDE''" | "modelKey = ''GEMINI''"
    using known by (auto simp: knownKeys_def)
  then show ?thesis
  proof cases
    case 1
    with rej show ?thesis
      by (simp add: fst_callApi_known snd_callApi callApi_try_known cases_rejected)
  next
    case 2
    with rej show ?thesis
      by (simp add: fst_callApi_known snd_callApi callApi_try_known cases_rejected)
  next
    case 3
    with rej show ?thesis
      by (simp add: fst_callApi_known snd_callApi callApi_try_known cases_rejected)
  next
    case 4
    with rej show ?thesis
      by (simp add: fst_callApi_known snd_callApi callApi_try_known cases_rejected)
  qed
qed

lemma sendMessage_begin_blank:
  "trim (input st) = [] \<Longrightarrow> sendMessage_begin e net st = ([], st, None)"
  by (simp add: sendMessage_begin_def)

lemma sendMessage_begin_nonblank:
  "trim (input st) \<noteq> [] \<Longrightarrow>
   sendMessage_begin e net st =
     (fst (callApi e net (key (selectedModel st)) (messages st @ [\<lparr>role = ''user'', content = input st\<rparr>])),
      st\<lparr>messages := messages st @ [\<lparr>role = ''user'', content = input st\<rparr>], input := ''''\<rparr>,
      Some \<lparr>closure_selectedModel = selectedModel st,
            closure_updatedMessages = messages st @ [\<lparr>role = ''user'', content = input st\<rparr>],
            promise = snd (callApi e net (key (selectedModel st))
                        (messages st @ [\<lparr>role = ''user'', content = input st\<rparr>]))\<rparr>)"
  by (simp add: sendMessage_begin_def Let_def split: prod.splits)

lemma sendMessage_resume_failed:
  "promise c = Inl err \<Longrightarrow>
   sendMessage_resume c st =
     st\<lparr>messages := closure_updatedMessages c @
           [\<lparr>role = ''assistant'', content = ''Error: '' @ err_message err\<rparr>]\<rparr>"
  by (simp add: sendMessage_resume_def)

lemma sendMessage_resume_succeeded:
  "promise c = Inr res \<Longrightarrow>
   sendMessage_resume c st =
     st\<lparr>messages := closure_updatedMessages c @ [\<lparr>role = ''assistant'', content = message res\<rparr>],
        apiCosts := addCost (apiCosts st) (key (closure_selectedModel c)) (cost res)\<rparr>"
  by (simp add: sendMessage_resume_def)

lemma sendMessage_blank: "trim (input st) = [] \<Longrightarrow> sendMessage e net st = ([], st)"
  by (simp add: sendMessage_def sendMessage_begin_blank)

lemma fst_sendMessage:
  "trim (input st) \<noteq> [] \<Longrightarrow>
   fst (sendMessage e net st) =
     fst (callApi e net (key (selectedModel st)) (messages st @ [\<lparr>role = ''user'', content = input st\<rparr>]))"
  by (simp add: sendMessage_def sendMessage_begin_nonblank)

lemma sendMessage_failed:
  assumes "trim (input st) \<noteq> []"
    and "snd (callApi e net (key (selectedModel st)) (messages st @ [\<lparr>role = ''user'', content = input st\<rparr>])) = Inl err"
  shows "snd (sendMessage e net st) =
           st\<lparr>messages := messages st @ [\<lparr>role = ''user'', content = input st\<rparr>,
                  \<lparr>role = ''assistant'', content = ''Error: '' @ err_message err\<rparr>],
              input := ''''\<rparr>"
  using assms
  by (simp add: sendMessage_def sendMessage_begin_nonblank sendMessage_resume_failed)

lemma sendMessage_succeeded:
  assumes "trim (input st) \<noteq> []"
    and "snd (callApi e net (key (selectedModel st)) (messages st @ [\<lparr>role = ''user'', content = input st\<rparr>])) = Inr res"
  shows "snd (sendMessage e net st) =
           st\<lparr>messages := messages st @ [\<lparr>role = ''user'', content = input st\<rparr>,
                  \<lparr>role = ''assistant'', content = message res\<rparr>],
              input := '''',
              apiCosts := addCost (apiCosts st) (key (selectedModel st)) (cost res)\<rparr>"
  using assms
  by (simp add: sendMessage_def sendMessage_begin_nonblank sendMessage_resume_succeeded)

lemma sendMessage_failed_ledger:
  assumes "snd (callApi e net (key (selectedModel st)) (messages st @ [\<lparr>role = ''user'', content = input st\<rparr>])) = Inl err"
  shows "apiCosts (snd (sendMessage e net st)) = apiCosts st"
proof (cases "trim (input st) = []")
  case True
  then show ?thesis by (simp add: sendMessage_blank)
next
  case False
  from sendMessage_failed [OF False assms] show ?thesis by simp
qed

lemma sendMessage_resume_failed_ledger:
  "promise c = Inl err \<Longrightarrow> apiCosts (sendMessage_resume c st) = apiCosts st"
  by (simp add: sendMessage_resume_failed)


subsection \<open>Auxiliary facts about the ledger\<close>





















lemma snd_run_Cons: "snd (run e a (ev # evs)) = snd (run e (snd (step e a ev)) evs)"
  by (simp split: prod.splits)

lemma fst_run_Cons: "fst (run e a (ev # evs)) = fst (step e a ev) @ fst (run e (snd (step e a ev)) evs)"
  by (simp split: prod.splits)

lemma snd_run_append: "snd (run e a (evs @ evs')) = snd (run e (snd (run e a evs)) evs')"
proof (induction evs arbitrary: a)
  case Nil
  show ?case by simp
next
  case (Cons ev evs)
  show ?case by (simp only: append_Cons snd_run_Cons Cons.IH)
qed

lemma fst_run_append:
  "fst (run e a (evs @ evs')) = fst (run e a evs) @ fst (run e (snd (run e a evs)) evs')"
proof (induction evs arbitrary: a)
  case Nil
  show ?case by simp
next
  case (Cons ev evs)
  show ?case by (simp only: append_Cons snd_run_Cons fst_run_Cons Cons.IH append_assoc)
qed






subsection \<open>Auxiliary facts about the history\<close>

lemma replays_known:
  "replays h (llamaRequest e (h @ t))"
  "replays h (chatgptRequest e (h @ t))"
  "replays h (claudeRequest e (h @ t))"
  "replays h (geminiRequest e (h @ t))"
  by (simp_all add: replays_def sentMessages_def sentContents_def llamaRequest_def chatgptRequest_def
      claudeRequest_def geminiRequest_def)

lemma replays_mono: "prefix h h' \<Longrightarrow> replays h' req \<Longrightarrow> replays h req"
  by (auto simp: replays_def split: option.splits intro: prefix_order.trans map_mono_prefix)

lemma callApi_replays: "list_all (replays h) (fst (callApi e net k (h @ t)))"
proof (cases "k \<in> set knownKeys")
  case True
  then consider "k = ''LLAMA''" | "k = ''CHATGPT''" | "k = ''CLAUDE''" | "k = ''GEMINI''"
    by (auto simp: knownKeys_def)
  then show ?thesis
    by cases (simp_all add: fst_callApi_known replays_known)
next
  case False
  then show ?thesis by (simp add: callApi_unknown)
qed

lemma messages_resume:
  "messages (sendMessage_resume c st) = messages (sendMessage_resume c st')"
  by (cases "promise c") (simp_all add: sendMessage_resume_def)

lemma messages_resume_closure:
  "\<exists>t. messages (sendMessage_resume c st) = closure_updatedMessages c @ [t]"
  by (cases "promise c") (simp_all add: sendMessage_resume_def)

lemma sendMessage_messages:
  assumes "trim (input st) \<noteq> []"
  shows "\<exists>reply. messages (snd (sendMessage e net st)) =
           messages st @ [\<lparr>role = ''user'', content = input st\<rparr>, \<lparr>role = ''assistant'', content = reply\<rparr>]"
proof (cases "snd (callApi e net (key (selectedModel st)) (messages st @ [\<lparr>role = ''user'', content = input st\<rparr>]))")
  case (Inl err)
  from sendMessage_failed [OF assms Inl] show ?thesis by simp
next
  case (Inr res)
  from sendMessage_succeeded [OF assms Inr] show ?thesis by simp
qed

lemma quiet_step:
  "quiet ev \<Longrightarrow> messages (ui (snd (step e a ev))) = messages (ui a)
     \<and> inflight (snd (step e a ev)) = inflight a \<and> fst (step e a ev) = []"
  by (cases ev) simp_all

lemma quiet_run:
  "list_all quiet evs \<Longrightarrow> messages (ui (snd (run e a evs))) = messages (ui a)
     \<and> inflight (snd (run e a evs)) = inflight a \<and> fst (run e a evs) = []"
proof (induction evs arbitrary: a)
  case Nil
  show ?case by simp
next
  case (Cons ev evs)
  from Cons.prems have q: "quiet ev" "list_all quiet evs" by simp_all
  from quiet_step [OF q(1), of e a] Cons.IH [OF q(2), of "snd (step e a ev)"] show ?case
    by (simp only: snd_run_Cons fst_run_Cons append_Nil simp_thms)
qed

lemma snd_run_single: "snd (run e a [ev]) = snd (step e a ev)"
  by (simp split: prod.splits)

lemma fst_run_single: "fst (run e a [ev]) = fst (step e a ev)"
  by (simp split: prod.splits)

lemma atMostOneCall_iff:
  "atMostOneCall a \<longleftrightarrow>
     inflight a = [] \<or> (\<exists>c. inflight a = [c] \<and> messages (ui a) = closure_updatedMessages c)"
  by (auto simp: atMostOneCall_def split: list.splits)

lemma settle_only_call:
  "inflight a = [c] \<Longrightarrow>
   snd (step e a (Settle 0)) = a\<lparr>ui := sendMessage_resume c (ui a), inflight := []\<rparr>"
  by simp

lemma settle_nothing: "inflight a = [] \<Longrightarrow> step e a (Settle n) = ([], a)"
  by simp

lemma send_alone:
  assumes idle: "inflight a = []" and q: "list_all quiet mids"
  shows "messages (ui (snd (run e a (Submit net # mids @ [Settle 0]))))
           = messages (snd (sendMessage e net (ui a)))
         \<and> inflight (snd (run e a (Submit net # mids @ [Settle 0]))) = []
         \<and> fst (run e a (Submit net # mids @ [Settle 0])) = fst (sendMessage e net (ui a))"
proof -
  define a1 where "a1 = snd (step e a (Submit net))"
  define a2 where "a2 = snd (run e a1 mids)"
  define a3 where "a3 = snd (step e a2 (Settle 0))"
  have r: "snd (run e a (Submit net # mids @ [Settle 0])) = a3"
    unfolding a3_def a2_def a1_def
    by (simp only: snd_run_Cons snd_run_append run.simps(1) snd_conv)
  have s0: "fst (step e x (Settle 0)) = []" for x by simp
  have "fst (run e a1 mids) = []" using quiet_run [OF q, of e a1] by simp
  then have f: "fst (run e a (Submit net # mids @ [Settle 0])) = fst (step e a (Submit net))"
    unfolding a1_def
    by (simp only: fst_run_Cons fst_run_append run.simps(1) fst_conv snd_conv append_Nil2
        append_Nil s0)
  from quiet_run [OF q, of e a1]
  have m2: "messages (ui a2) = messages (ui a1)" and i2: "inflight a2 = inflight a1"
    unfolding a2_def by simp_all
  obtain reqs st1 pc where b: "sendMessage_begin e net (ui a) = (reqs, st1, pc)"
    by (cases "sendMessage_begin e net (ui a)") auto
  show ?thesis
  proof (cases pc)
    case None
    with b idle have 1: "inflight a1 = []" "messages (ui a1) = messages st1"
      "fst (step e a (Submit net)) = reqs"
      unfolding a1_def by simp_all
    with i2 have "a3 = a2" unfolding a3_def by simp
    with 1 None b m2 i2 show ?thesis
      unfolding r f by (simp add: sendMessage_def)
  next
    case (Some c)
    show ?thesis
    proof (cases "reqs = []")
      case True
      with Some b idle have 1: "inflight a1 = []"
        "messages (ui a1) = messages (sendMessage_resume c st1)"
        "fst (step e a (Submit net)) = reqs"
        unfolding a1_def by simp_all
      with i2 have "a3 = a2" unfolding a3_def by simp
      with 1 Some b m2 i2 show ?thesis
        unfolding r f by (simp add: sendMessage_def)
    next
      case False
      with Some b idle have 1: "inflight a1 = [c]" "fst (step e a (Submit net)) = reqs"
        unfolding a1_def by simp_all
      with i2 have "inflight a2 = [c]" by simp
      from settle_only_call [OF this, of e]
      have "a3 = a2\<lparr>ui := sendMessage_resume c (ui a2), inflight := []\<rparr>"
        unfolding a3_def .
      with 1 Some b show ?thesis
        unfolding r f by (simp add: sendMessage_def messages_resume [of c "ui a2" st1])
    qed
  qed
qed

lemma step_one_call:
  assumes one: "atMostOneCall a"
    and sub: "case ev of Submit net \<Rightarrow> inflight a = [] | _ \<Rightarrow> True"
  shows "atMostOneCall (snd (step e a ev))
         \<and> prefix (messages (ui a)) (messages (ui (snd (step e a ev))))
         \<and> list_all (replays (messages (ui a))) (fst (step e a ev))"
proof (cases ev)
  case (SetInput s)
  with one show ?thesis by (simp add: atMostOneCall_iff)
next
  case (SelectModel i)
  with one show ?thesis by (simp add: atMostOneCall_iff)
next
  case (Submit net)
  with sub have idle: "inflight a = []" by simp
  show ?thesis
  proof (cases "trim (input (ui a)) = []")
    case True
    with Submit one show ?thesis by (simp add: sendMessage_begin_blank atMostOneCall_iff)
  next
    case False
    let ?h = "messages (ui a) @ [\<lparr>role = ''user'', content = input (ui a)\<rparr>]"
    let ?call = "callApi e net (key (selectedModel (ui a))) ?h"
    let ?c = "\<lparr>closure_selectedModel = selectedModel (ui a), closure_updatedMessages = ?h,
               promise = snd ?call\<rparr>"
    from messages_resume_closure [of ?c] obtain t where
      t: "\<And>st. messages (sendMessage_resume ?c st) = ?h @ [t]"
      using messages_resume [of ?c] by (metis pending_call.select_convs(2))
    from Submit False idle t callApi_replays [of "messages (ui a)" e net "key (selectedModel (ui a))"]
    show ?thesis
      by (simp add: sendMessage_begin_nonblank atMostOneCall_iff)
  qed
next
  case (Settle n)
  show ?thesis
  proof (cases "inflight a")
    case Nil
    with Settle one show ?thesis by simp
  next
    case (Cons c cs)
    with one have cs: "cs = []" and m: "messages (ui a) = closure_updatedMessages c"
      by (simp_all add: atMostOneCall_iff)
    from messages_resume_closure [of c "ui a"] obtain t where
      "messages (sendMessage_resume c (ui a)) = closure_updatedMessages c @ [t]" by blast
    with Settle Cons cs m one show ?thesis
      by (cases n) (simp_all add: atMostOneCall_iff)
  qed
qed

lemma run_one_call:
  "atMostOneCall a \<Longrightarrow> nonOverlapping e a evs
   \<Longrightarrow> list_all (replays (messages (ui a))) (fst (run e a evs))"
proof (induction evs arbitrary: a)
  case Nil
  show ?case by simp
next
  case (Cons ev evs)
  from Cons.prems(2) have sub: "case ev of Submit net \<Rightarrow> inflight a = [] | _ \<Rightarrow> True"
    and rest: "nonOverlapping e (snd (step e a ev)) evs" by simp_all
  from step_one_call [OF Cons.prems(1) sub, of e]
  have s: "atMostOneCall (snd (step e a ev))"
    "prefix (messages (ui a)) (messages (ui (snd (step e a ev))))"
    "list_all (replays (messages (ui a))) (fst (step e a ev))" by simp_all
  from Cons.IH [OF s(1) rest]
  have "list_all (replays (messages (ui a))) (fst (run e (snd (step e a ev)) evs))"
    using s(2) by (auto simp: list_all_iff intro: replays_mono)
  with s(3) show ?case
    by (simp only: fst_run_Cons list_all_append simp_thms)
qed

subsection \<open>Auxiliary facts about the estimated cost\<close>










subsection \<open>Cost of a successful call\<close>

text \<open>
  Claim C1. For each of the four provider ids and every response whose fields can be read,
  \<^verbatim>\<open>callApi\<close> returns the reply text and the cost
  \<open>(tokenCount / 1000000) * pricePerMillion\<close>, where \<open>tokenCount\<close> is the provider's
  accounting value (for CLAUDE the sum of the reported input and output tokens). The
  instance below is the specification's example: CLAUDE, "2+2?", 10 and 5 tokens, the
  text "4" and the price 3.00 give the reply "4" and the cost 0.000045.
\<close>

theorem callApi_cost:
  assumes known: "modelKey \<in> set knownKeys"
    and net: "list_all (\<lambda>req. net req = Resolved r) (fst (callApi e net modelKey h))"
    and tok: "spec_tokenCount modelKey h r = Read tokenCount"
    and rep: "spec_replyText modelKey r = Read replyText"
  shows "snd (callApi e net modelKey h) =
           Inr \<lparr>message = replyText,
                cost = js_mul (js_div tokenCount 1000000) (pricePerMillionOf e modelKey)\<rparr>"
  using assms by (rule callApi_success)

theorem callApi_cost_witness:
  "''CLAUDE'' \<in> set knownKeys
   \<and> list_all (\<lambda>req. Resolved claudeReply = Resolved claudeReply)
        (fst (callApi claudeEnv (\<lambda>req. Resolved claudeReply) ''CLAUDE'' [\<lparr>role = ''user'', content = ''2+2?''\<rparr>]))
   \<and> spec_tokenCount ''CLAUDE'' [\<lparr>role = ''user'', content = ''2+2?''\<rparr>] claudeReply = Read (Num 15)
   \<and> spec_replyText ''CLAUDE'' claudeReply = Read ''4''
   \<and> snd (callApi claudeEnv (\<lambda>req. Resolved claudeReply) ''CLAUDE'' [\<lparr>role = ''user'', content = ''2+2?''\<rparr>])
       = Inr \<lparr>message = ''4'', cost = Num 0.000045\<rparr>"
proof -
  have k: "''CLAUDE'' \<in> set knownKeys" by (simp add: knownKeys_def)
  have n: "list_all (\<lambda>req. (\<lambda>req. Resolved claudeReply) req = Resolved claudeReply)
        (fst (callApi claudeEnv (\<lambda>req. Resolved claudeReply) ''CLAUDE'' [\<lparr>role = ''user'', content = ''2+2?''\<rparr>]))"
    by (simp add: list_all_iff)
  have t: "spec_tokenCount ''CLAUDE'' [\<lparr>role = ''user'', content = ''2+2?''\<rparr>] claudeReply = Read (Num 15)"
    by (simp add: spec_tokenCount_def claudeReply_def noReads_def)
  have r: "spec_replyText ''CLAUDE'' claudeReply = Read ''4''"
    by (simp add: spec_replyText_def claudeReply_def noReads_def)
  have "snd (callApi claudeEnv (\<lambda>req. Resolved claudeReply) ''CLAUDE'' [\<lparr>role = ''user'', content = ''2+2?''\<rparr>])
       = Inr \<lparr>message = ''4'', cost = Num 0.000045\<rparr>"
    using callApi_cost [OF k n t r] by (simp add: claudeEnv_def underflow_plain)
  with k n t r show ?thesis by simp
qed

subsection \<open>An unknown provider key\<close>

text \<open>
  Claim C2, as stated: for a key outside the four, \<^verbatim>\<open>callApi\<close> fails with an error of
  a type of its own, distinguishable from the normalized error, before any network call.
  The \<^verbatim>\<open>throw\<close> of the \<^verbatim>\<open>default\<close> case is inside the \<^verbatim>\<open>try\<close>, so the
  \<^verbatim>\<open>catch\<close> replaces it like every other error: for the key "FOO" no request is
  issued, and the error that comes out is the normalized one, a plain \<^verbatim>\<open>Error\<close> of the
  same form as the one that a transport failure with the message "Invalid model
  selected" gives for LLAMA.
\<close>

theorem unknown_key_counterexample:
  "''FOO'' \<notin> set knownKeys
   \<and> callApi claudeEnv (\<lambda>req. Resolved claudeReply) ''FOO'' [\<lparr>role = ''user'', content = ''2+2?''\<rparr>]
       = ([], Inl (Error ''Failed to get response from FOO: Invalid model selected''))
   \<and> isNormalizedError ''FOO'' (Error ''Failed to get response from FOO: Invalid model selected'')
   \<and> snd (callApi claudeEnv (\<lambda>req. Rejected (Error ''Invalid model selected'')) ''LLAMA''
            [\<lparr>role = ''user'', content = ''2+2?''\<rparr>])
       = Inl (Error ''Failed to get response from LLAMA: Invalid model selected'')"
proof -
  have "snd (callApi claudeEnv (\<lambda>req. Rejected (Error ''Invalid model selected'')) ''LLAMA''
            [\<lparr>role = ''user'', content = ''2+2?''\<rparr>])
       = Inl (Error ''Failed to get response from LLAMA: Invalid model selected'')"
    by (simp add: snd_callApi callApi_try_known chatCase_def failureDetail_def Error_def)
  then show ?thesis
    by (simp add: knownKeys_def callApi_def callApi_try_def failureDetail_def Error_def
        isNormalizedError_def)
qed

text \<open>
  Claim C2, amended: for every key outside the four, \<^verbatim>\<open>callApi\<close> issues no request and
  fails with the normalized error, whose message is "Failed to get response from", the
  key, and "Invalid model selected".
\<close>

theorem unknown_key_fails_before_network:
  assumes "modelKey \<notin> set knownKeys"
  shows "fst (callApi e net modelKey h) = []
         \<and> snd (callApi e net modelKey h) =
             Inl (Error (''Failed to get response from '' @ modelKey @ '': Invalid model selected''))
         \<and> isNormalizedError modelKey
             (Error (''Failed to get response from '' @ modelKey @ '': Invalid model selected''))"
  using assms by (simp add: callApi_unknown isNormalizedError_def Error_def)

theorem unknown_key_fails_before_network_witness:
  "''FOO'' \<notin> set knownKeys
   \<and> fst (callApi claudeEnv (\<lambda>req. Resolved claudeReply) ''FOO'' threeTurns) = []
   \<and> snd (callApi claudeEnv (\<lambda>req. Resolved claudeReply) ''FOO'' threeTurns) =
        Inl (Error ''Failed to get response from FOO: Invalid model selected'')
   \<and> isNormalizedError ''FOO'' (Error ''Failed to get response from FOO: Invalid model selected'')"
proof -
  have k: "''FOO'' \<notin> set knownKeys" by (simp add: knownKeys_def)
  show ?thesis
    using k unknown_key_fails_before_network [OF k, of claudeEnv "\<lambda>req. Resolved claudeReply" threeTurns]
    by simp
qed

subsection \<open>A failed call\<close>

text \<open>
  Claim C3. When the network rejects the request (a transport failure or a status
  outside 2xx), \<^verbatim>\<open>callApi\<close> fails with the normalized error, whose message names the
  provider id and then the serialized body of the response or the transport message.
  Every error that \<^verbatim>\<open>callApi\<close> fails with, for any key, has the normalized form. And a
  \<^verbatim>\<open>sendMessage\<close> whose call fails leaves the whole ledger as it was, also when the
  failure arrives in a later state, after other events.
\<close>

theorem failed_call_normalized_uncharged:
  "(modelKey \<in> set knownKeys \<and> list_all (\<lambda>req. net req = Rejected x) (fst (callApi e net modelKey h)) \<longrightarrow>
      snd (callApi e net modelKey h) =
        Inl (Error (''Failed to get response from '' @ modelKey @ '': '' @ failureDetail x)))
   \<and> (snd (callApi e net modelKey h) = Inl err \<longrightarrow> isNormalizedError modelKey err)
   \<and> (snd (callApi e net (key (selectedModel st)) (messages st @ [\<lparr>role = ''user'', content = input st\<rparr>])) = Inl err'
        \<longrightarrow> apiCosts (snd (sendMessage e net st)) = apiCosts st)
   \<and> (promise c = Inl err'' \<longrightarrow> apiCosts (sendMessage_resume c st') = apiCosts st')"
proof (intro conjI impI)
  assume "modelKey \<in> set knownKeys \<and> list_all (\<lambda>req. net req = Rejected x) (fst (callApi e net modelKey h))"
  then show "snd (callApi e net modelKey h) =
        Inl (Error (''Failed to get response from '' @ modelKey @ '': '' @ failureDetail x))"
    by (intro callApi_rejected) simp_all
next
  assume "snd (callApi e net modelKey h) = Inl err"
  then show "isNormalizedError modelKey err" by (rule callApi_Inl_normalized)
next
  assume "snd (callApi e net (key (selectedModel st)) (messages st @ [\<lparr>role = ''user'', content = input st\<rparr>])) = Inl err'"
  then show "apiCosts (snd (sendMessage e net st)) = apiCosts st" by (rule sendMessage_failed_ledger)
next
  assume "promise c = Inl err''"
  then show "apiCosts (sendMessage_resume c st') = apiCosts st'"
    by (rule sendMessage_resume_failed_ledger)
qed

theorem failed_call_normalized_uncharged_witness:
  "''LLAMA'' \<in> set knownKeys
   \<and> list_all (\<lambda>req. Rejected status401 = Rejected status401)
        (fst (callApi claudeEnv (\<lambda>req. Rejected status401) ''LLAMA'' [\<lparr>role = ''user'', content = ''2+2?''\<rparr>]))
   \<and> snd (callApi claudeEnv (\<lambda>req. Rejected status401) ''LLAMA'' [\<lparr>role = ''user'', content = ''2+2?''\<rparr>])
       = Inl (Error ''Failed to get response from LLAMA: {}'')
   \<and> isNormalizedError ''LLAMA'' (Error ''Failed to get response from LLAMA: {}'')
   \<and> apiCosts (snd (sendMessage claudeEnv (\<lambda>req. Rejected status401) askingState)) = apiCosts askingState
   \<and> promise \<lparr>closure_selectedModel = hd models, closure_updatedMessages = [\<lparr>role = ''user'', content = ''2+2?''\<rparr>],
               promise = Inl (Error ''Failed to get response from LLAMA: {}'')\<rparr>
       = Inl (Error ''Failed to get response from LLAMA: {}'')
   \<and> apiCosts (sendMessage_resume
         \<lparr>closure_selectedModel = hd models, closure_updatedMessages = [\<lparr>role = ''user'', content = ''2+2?''\<rparr>],
          promise = Inl (Error ''Failed to get response from LLAMA: {}'')\<rparr> blankState)
       = apiCosts blankState"
proof -
  let ?h = "[\<lparr>role = ''user'', content = ''2+2?''\<rparr>]"
  let ?net = "\<lambda>req::request. Rejected status401"
  let ?err = "Error ''Failed to get response from LLAMA: {}''"
  let ?c = "\<lparr>closure_selectedModel = hd models, closure_updatedMessages = ?h, promise = Inl ?err\<rparr>"
  note t = failed_call_normalized_uncharged [of "''LLAMA''" ?net status401 claudeEnv ?h ?err askingState ?err
      ?c ?err blankState]
  have k: "''LLAMA'' \<in> set knownKeys" by (simp add: knownKeys_def)
  have n: "list_all (\<lambda>req. ?net req = Rejected status401) (fst (callApi claudeEnv ?net ''LLAMA'' ?h))"
    by (simp add: list_all_iff)
  from t k n have a: "snd (callApi claudeEnv ?net ''LLAMA'' ?h) = Inl ?err"
    by (simp add: failureDetail_def status401_def)
  have s: "key (selectedModel askingState) = ''LLAMA''" "messages askingState = []" "input askingState = ''2+2?''"
    by (simp_all add: askingState_def initialState_def models_def)
  from t a have b: "isNormalizedError ''LLAMA'' ?err" by blast
  from t a s have c: "apiCosts (snd (sendMessage claudeEnv ?net askingState)) = apiCosts askingState"
    by simp
  have p: "promise ?c = Inl ?err" by simp
  from t p have d: "apiCosts (sendMessage_resume ?c blankState) = apiCosts blankState" by blast
  from k n a b c p d show ?thesis by simp
qed

subsection \<open>The cost ledger\<close>





subsection \<open>The history in the outbound request\<close>

text \<open>
  Claim C5. For LLAMA and CHATGPT the one request issued carries the history itself in
  its \<^verbatim>\<open>messages\<close> field. For GEMINI the one request issued carries a
  \<^verbatim>\<open>contents\<close> list as long as the history, whose \<open>i\<close>-th element has the role
  "model" where the \<open>i\<close>-th turn has "assistant" and "user" where it has "user", and whose
  parts are the single text part of that turn's content.
\<close>

theorem history_preserved:
  "map sentMessages (fst (callApi e net ''LLAMA'' h)) = [Some h]
   \<and> map sentMessages (fst (callApi e net ''CHATGPT'' h)) = [Some h]
   \<and> (\<exists>cs. map sentContents (fst (callApi e net ''GEMINI'' h)) = [Some cs]
         \<and> length cs = length h
         \<and> (\<forall>i < length h.
               (role (h ! i) = ''assistant'' \<longrightarrow> gemini_role (cs ! i) = ''model'')
             \<and> (role (h ! i) = ''user'' \<longrightarrow> gemini_role (cs ! i) = ''user'')
             \<and> parts (cs ! i) = [Part (content (h ! i))]))"
  by (simp add: fst_callApi_known sent_known geminiMessage_def)

theorem history_preserved_witness:
  "map sentMessages (fst (callApi claudeEnv (\<lambda>req. Resolved claudeReply) ''LLAMA'' threeTurns)) = [Some threeTurns]
   \<and> map sentMessages (fst (callApi claudeEnv (\<lambda>req. Resolved claudeReply) ''CHATGPT'' threeTurns)) = [Some threeTurns]
   \<and> map sentContents (fst (callApi claudeEnv (\<lambda>req. Resolved claudeReply) ''GEMINI'' threeTurns))
       = [Some [GeminiContent ''user'' [Part ''hi''], GeminiContent ''model'' [Part ''hello''],
                GeminiContent ''user'' [Part ''again'']]]"
proof -
  note hp = history_preserved [of claudeEnv "\<lambda>req. Resolved claudeReply" threeTurns]
  from hp have a: "map sentMessages (fst (callApi claudeEnv (\<lambda>req. Resolved claudeReply) ''LLAMA'' threeTurns)) = [Some threeTurns]"
    by (rule conjunct1)
  from hp have b: "map sentMessages (fst (callApi claudeEnv (\<lambda>req. Resolved claudeReply) ''CHATGPT'' threeTurns)) = [Some threeTurns]"
    by (rule conjunct1 [OF conjunct2])
  from hp obtain cs where cs: "map sentContents (fst (callApi claudeEnv (\<lambda>req. Resolved claudeReply) ''GEMINI'' threeTurns)) = [Some cs]"
    and len: "length cs = length threeTurns"
    and el: "\<forall>i < length threeTurns.
               (role (threeTurns ! i) = ''assistant'' \<longrightarrow> gemini_role (cs ! i) = ''model'')
             \<and> (role (threeTurns ! i) = ''user'' \<longrightarrow> gemini_role (cs ! i) = ''user'')
             \<and> parts (cs ! i) = [Part (content (threeTurns ! i))]"
    by (elim conjE exE)
  from len obtain c0 c1 c2 where c: "cs = [c0, c1, c2]"
    by (auto simp: threeTurns_def length_Suc_conv)
  from el [rule_format, of 0] el [rule_format, of 1] el [rule_format, of 2]
  have "cs = [GeminiContent ''user'' [Part ''hi''], GeminiContent ''model'' [Part ''hello''],
                GeminiContent ''user'' [Part ''again'']]"
    unfolding c by (cases c0; cases c1; cases c2) (simp add: threeTurns_def)
  with cs a b show ?thesis by simp
qed

subsection \<open>The estimated cost of a Gemini call\<close>





subsection \<open>Sign of the cost\<close>




subsection \<open>Blank input\<close>

text \<open>
  Claim C8. When the input consists of white space only (the empty input included),
  \<^verbatim>\<open>sendMessage\<close> issues no request and leaves the whole state, and so the
  conversation, the ledger and the input field, as it was; nothing is left in flight.
\<close>

theorem blank_input_no_effect:
  assumes "list_all isWhiteSpace (input st)"
  shows "sendMessage e net st = ([], st)
         \<and> sendMessage_begin e net st = ([], st, None)
         \<and> step e \<lparr>ui = st, inflight = cs\<rparr> (Submit net) = ([], \<lparr>ui = st, inflight = cs\<rparr>)"
  using assms by (simp add: sendMessage_blank sendMessage_begin_blank trim_blank)

theorem blank_input_no_effect_witness:
  "list_all isWhiteSpace (input blankState)
   \<and> sendMessage claudeEnv (\<lambda>req. Resolved claudeReply) blankState = ([], blankState)
   \<and> sendMessage_begin claudeEnv (\<lambda>req. Resolved claudeReply) blankState = ([], blankState, None)
   \<and> step claudeEnv \<lparr>ui = blankState, inflight = []\<rparr> (Submit (\<lambda>req. Resolved claudeReply))
       = ([], \<lparr>ui = blankState, inflight = []\<rparr>)"
proof -
  have b: "list_all isWhiteSpace (input blankState)"
    by (simp add: blankState_def isWhiteSpace_def)
  from b blank_input_no_effect [OF b, of claudeEnv "\<lambda>req. Resolved claudeReply" "[]"] show ?thesis
    by simp
qed

subsection \<open>The history after a failed call\<close>

text \<open>
  Claim C9, as stated, speaks of every failed call and every subsequent call. Nothing
  disables the input while a call is in flight, and the turn that \<^verbatim>\<open>sendMessage\<close>
  appends when its call settles is appended to the history of the moment of submission.
  So when "a" is submitted and fails while "b", submitted meanwhile, succeeds, the two
  sends leave three turns, the error turn is not among them, and the request of the
  next submission does not carry it.
\<close>

theorem overlapping_sends_counterexample:
  "snd (callApi pricedEnv (\<lambda>req. Rejected status401) ''LLAMA'' [\<lparr>role = ''user'', content = ''a''\<rparr>])
     = Inl (Error ''Failed to get response from LLAMA: {}'')
   \<and> messages (ui (snd (run pricedEnv initialApp overlappingSends)))
       = [\<lparr>role = ''user'', content = ''a''\<rparr>, \<lparr>role = ''user'', content = ''b''\<rparr>,
          \<lparr>role = ''assistant'', content = ''ok''\<rparr>]
   \<and> inflight (snd (run pricedEnv initialApp overlappingSends)) = []
   \<and> \<lparr>role = ''assistant'', content = ''Error: Failed to get response from LLAMA: {}''\<rparr>
       \<notin> set (messages (ui (snd (run pricedEnv initialApp overlappingSends))))
   \<and> map sentMessages (fst (run pricedEnv initialApp (overlappingSends @ thirdSend)))
       = [Some [\<lparr>role = ''user'', content = ''a''\<rparr>],
          Some [\<lparr>role = ''user'', content = ''a''\<rparr>, \<lparr>role = ''user'', content = ''b''\<rparr>],
          Some [\<lparr>role = ''user'', content = ''a''\<rparr>, \<lparr>role = ''user'', content = ''b''\<rparr>,
                \<lparr>role = ''assistant'', content = ''ok''\<rparr>, \<lparr>role = ''user'', content = ''c''\<rparr>]]"
proof -
  have i: "trim ''a'' \<noteq> []" "trim ''b'' \<noteq> []" "trim ''c'' \<noteq> []"
    by (simp_all add: trim_def isWhiteSpace_def)
  have ca: "callApi pricedEnv (\<lambda>req. Rejected status401) ''LLAMA'' h
       = ([llamaRequest pricedEnv h], Inl (Error ''Failed to get response from LLAMA: {}''))" for h
    by (simp add: callApi_def callApi_try_known chatCase_def failureDetail_def status401_def)
  have cb: "callApi pricedEnv (\<lambda>req. Resolved millionReply) ''LLAMA'' h
       = ([llamaRequest pricedEnv h], Inr \<lparr>message = ''ok'', cost = Num 3\<rparr>)" for h
    by (simp add: callApi_def callApi_try_known chatCase_def millionReply_def noReads_def
        pricedEnv_def costOf_def underflow_plain)
  have r: "run pricedEnv initialApp overlappingSends =
      ([llamaRequest pricedEnv [\<lparr>role = ''user'', content = ''a''\<rparr>],
        llamaRequest pricedEnv [\<lparr>role = ''user'', content = ''a''\<rparr>, \<lparr>role = ''user'', content = ''b''\<rparr>]],
       \<lparr>ui = initialState\<lparr>messages := [\<lparr>role = ''user'', content = ''a''\<rparr>, \<lparr>role = ''user'', content = ''b''\<rparr>,
                \<lparr>role = ''assistant'', content = ''ok''\<rparr>],
             apiCosts := addCost (apiCosts initialState) ''LLAMA'' (Num 3)\<rparr>,
        inflight = []\<rparr>)"
    by (simp add: overlappingSends_def initialApp_def sendMessage_begin_def sendMessage_resume_def
        i ca cb Let_def initialState_def models_def)
  have t: "fst (run pricedEnv (snd (run pricedEnv initialApp overlappingSends)) thirdSend)
      = [llamaRequest pricedEnv [\<lparr>role = ''user'', content = ''a''\<rparr>, \<lparr>role = ''user'', content = ''b''\<rparr>,
                \<lparr>role = ''assistant'', content = ''ok''\<rparr>, \<lparr>role = ''user'', content = ''c''\<rparr>]]"
    unfolding r
    by (simp add: thirdSend_def sendMessage_begin_def i cb Let_def initialState_def models_def)
  show ?thesis
    by (simp add: fst_run_append t ca) (simp add: r sent_known)
qed


text \<open>
  Claim C9, amended: for every failed call that is submitted while no call is in flight
  and settles before the next submission (typing and model selection may happen in
  between), \<^verbatim>\<open>sendMessage\<close> appends two turns to the conversation history, the
  submitted user turn and an assistant turn whose content is "Error: " followed by the
  error message; the history grows by exactly two turns with any network, on failure as
  on success; and as long as no submission is made while a call is in flight, every
  request issued afterwards replays the history with the error turn in it.
\<close>

theorem failed_call_appends_error_turn:
  assumes idle: "inflight a = []"
    and nb: "trim (input (ui a)) \<noteq> []"
    and fail: "snd (callApi e net (key (selectedModel (ui a)))
                  (messages (ui a) @ [\<lparr>role = ''user'', content = input (ui a)\<rparr>])) = Inl err"
    and q: "list_all quiet mids"
    and later: "nonOverlapping e (snd (run e a (Submit net # mids @ [Settle 0]))) evs"
  shows "messages (ui (snd (run e a (Submit net # mids @ [Settle 0])))) =
           messages (ui a) @ [\<lparr>role = ''user'', content = input (ui a)\<rparr>,
                              \<lparr>role = ''assistant'', content = ''Error: '' @ err_message err\<rparr>]
         \<and> length (messages (ui (snd (run e a (Submit net # mids @ [Settle 0])))))
             = length (messages (ui a)) + 2
         \<and> length (messages (ui (snd (run e a (Submit net' # mids @ [Settle 0])))))
             = length (messages (ui a)) + 2
         \<and> list_all (replays (messages (ui a) @ [\<lparr>role = ''user'', content = input (ui a)\<rparr>,
                              \<lparr>role = ''assistant'', content = ''Error: '' @ err_message err\<rparr>]))
             (fst (run e (snd (run e a (Submit net # mids @ [Settle 0]))) evs))"
proof -
  let ?a' = "snd (run e a (Submit net # mids @ [Settle 0]))"
  from send_alone [OF idle q, of e net]
  have m: "messages (ui ?a') = messages (snd (sendMessage e net (ui a)))"
    and i: "inflight ?a' = []" by simp_all
  from m have m': "messages (ui ?a') =
           messages (ui a) @ [\<lparr>role = ''user'', content = input (ui a)\<rparr>,
                              \<lparr>role = ''assistant'', content = ''Error: '' @ err_message err\<rparr>]"
    by (simp add: sendMessage_failed [OF nb fail])
  from send_alone [OF idle q, of e net'] sendMessage_messages [OF nb, of e net']
  have l: "length (messages (ui (snd (run e a (Submit net' # mids @ [Settle 0])))))
             = length (messages (ui a)) + 2"
    by auto
  from i have "atMostOneCall ?a'" by (simp add: atMostOneCall_iff)
  from run_one_call [OF this later] m' l show ?thesis by simp
qed

theorem failed_call_appends_error_turn_witness:
  "inflight askingApp = []
   \<and> trim (input (ui askingApp)) \<noteq> []
   \<and> snd (callApi pricedEnv (\<lambda>req. Rejected status401) (key (selectedModel (ui askingApp)))
            (messages (ui askingApp) @ [\<lparr>role = ''user'', content = input (ui askingApp)\<rparr>]))
       = Inl (Error ''Failed to get response from LLAMA: {}'')
   \<and> list_all quiet [SetInput ''again'']
   \<and> nonOverlapping pricedEnv
        (snd (run pricedEnv askingApp (Submit (\<lambda>req. Rejected status401) # [SetInput ''again''] @ [Settle 0])))
        [Submit (\<lambda>req. Resolved millionReply), Settle 0]
   \<and> messages (ui (snd (run pricedEnv askingApp
        (Submit (\<lambda>req. Rejected status401) # [SetInput ''again''] @ [Settle 0]))))
       = [\<lparr>role = ''user'', content = ''2+2?''\<rparr>,
          \<lparr>role = ''assistant'', content = ''Error: Failed to get response from LLAMA: {}''\<rparr>]
   \<and> length (messages (ui (snd (run pricedEnv askingApp
        (Submit (\<lambda>req. Resolved millionReply) # [SetInput ''again''] @ [Settle 0]))))) = 2
   \<and> list_all (replays [\<lparr>role = ''user'', content = ''2+2?''\<rparr>,
          \<lparr>role = ''assistant'', content = ''Error: Failed to get response from LLAMA: {}''\<rparr>])
        (fst (run pricedEnv
           (snd (run pricedEnv askingApp (Submit (\<lambda>req. Rejected status401) # [SetInput ''again''] @ [Settle 0])))
           [Submit (\<lambda>req. Resolved millionReply), Settle 0]))
   \<and> map sentMessages
        (fst (run pricedEnv
           (snd (run pricedEnv askingApp (Submit (\<lambda>req. Rejected status401) # [SetInput ''again''] @ [Settle 0])))
           [Submit (\<lambda>req. Resolved millionReply), Settle 0]))
       = [Some [\<lparr>role = ''user'', content = ''2+2?''\<rparr>,
                \<lparr>role = ''assistant'', content = ''Error: Failed to get response from LLAMA: {}''\<rparr>,
                \<lparr>role = ''user'', content = ''again''\<rparr>]]"
proof -
  let ?net = "\<lambda>req::request. Rejected status401"
  let ?net' = "\<lambda>req::request. Resolved millionReply"
  let ?err = "Error ''Failed to get response from LLAMA: {}''"
  let ?mids = "[SetInput ''again'']"
  let ?evs = "[Submit ?net', Settle 0]"
  let ?a' = "snd (run pricedEnv askingApp (Submit ?net # ?mids @ [Settle 0]))"
  have s: "key (selectedModel (ui askingApp)) = ''LLAMA''" "messages (ui askingApp) = []"
    "input (ui askingApp) = ''2+2?''" "inflight askingApp = []"
    by (simp_all add: askingApp_def askingState_def initialState_def models_def)
  have nb: "trim (input (ui askingApp)) \<noteq> []"
    by (simp add: s trim_def isWhiteSpace_def)
  have ca: "callApi pricedEnv ?net ''LLAMA'' h = ([llamaRequest pricedEnv h], Inl ?err)" for h
    by (simp add: callApi_def callApi_try_known chatCase_def failureDetail_def status401_def)
  have fail: "snd (callApi pricedEnv ?net (key (selectedModel (ui askingApp)))
            (messages (ui askingApp) @ [\<lparr>role = ''user'', content = input (ui askingApp)\<rparr>])) = Inl ?err"
    by (simp add: s ca)
  have q: "list_all quiet ?mids" by simp
  have r: "?a' = \<lparr>ui = askingState\<lparr>messages := [\<lparr>role = ''user'', content = ''2+2?''\<rparr>,
          \<lparr>role = ''assistant'', content = ''Error: Failed to get response from LLAMA: {}''\<rparr>],
          input := ''again''\<rparr>, inflight = []\<rparr>"
    using nb s
    by (simp add: askingApp_def sendMessage_begin_def sendMessage_resume_def ca Let_def Error_def
        llamaRequest_def)
  have later: "nonOverlapping pricedEnv ?a' ?evs"
    unfolding r by simp
  note t = failed_call_appends_error_turn [OF s(4) nb fail q later, of ?net']
  from t have m: "messages (ui ?a')
       = [\<lparr>role = ''user'', content = ''2+2?''\<rparr>,
          \<lparr>role = ''assistant'', content = ''Error: Failed to get response from LLAMA: {}''\<rparr>]"
    by (simp add: s Error_def)
  from t have l: "length (messages (ui (snd (run pricedEnv askingApp (Submit ?net' # ?mids @ [Settle 0]))))) = 2"
    by (simp add: s)
  from t have rp: "list_all (replays [\<lparr>role = ''user'', content = ''2+2?''\<rparr>,
          \<lparr>role = ''assistant'', content = ''Error: Failed to get response from LLAMA: {}''\<rparr>])
        (fst (run pricedEnv ?a' ?evs))"
    by (simp add: s Error_def)
  have i: "trim ''again'' \<noteq> []"
    by (simp add: trim_def isWhiteSpace_def)
  have cb: "callApi pricedEnv ?net' ''LLAMA'' h
       = ([llamaRequest pricedEnv h], Inr \<lparr>message = ''ok'', cost = Num 3\<rparr>)" for h
    by (simp add: callApi_def callApi_try_known chatCase_def millionReply_def noReads_def
        pricedEnv_def costOf_def underflow_plain)
  have sq: "map sentMessages (fst (run pricedEnv ?a' ?evs))
       = [Some [\<lparr>role = ''user'', content = ''2+2?''\<rparr>,
                \<lparr>role = ''assistant'', content = ''Error: Failed to get response from LLAMA: {}''\<rparr>,
                \<lparr>role = ''user'', content = ''again''\<rparr>]]"
    unfolding r
    by (simp add: sendMessage_begin_def i cb Let_def askingState_def initialState_def models_def
        sent_known)
  from s(4) nb fail q later m l rp sq show ?thesis by simp
qed

subsection \<open>The Gemini role mapping\<close>

text \<open>
  Claim C10. The \<^verbatim>\<open>contents\<close> of the Gemini request are the history mapped turn by
  turn, and the mapping is total over role strings: every role other than "assistant"
  becomes "user", and "assistant" becomes "model".
\<close>

theorem gemini_role_total:
  "map sentContents (fst (callApi e net ''GEMINI'' h)) = [Some (map geminiMessage h)]
   \<and> (role msg \<noteq> ''assistant'' \<longrightarrow> gemini_role (geminiMessage msg) = ''user'')
   \<and> (role msg = ''assistant'' \<longrightarrow> gemini_role (geminiMessage msg) = ''model'')"
  by (simp add: fst_callApi_known sent_known geminiMessage_def)

theorem gemini_role_total_witness:
  "map sentContents (fst (callApi claudeEnv (\<lambda>req. Resolved claudeReply) ''GEMINI''
       [\<lparr>role = ''system'', content = ''be brief''\<rparr>, \<lparr>role = ''assistant'', content = ''ok''\<rparr>]))
     = [Some [GeminiContent ''user'' [Part ''be brief''], GeminiContent ''model'' [Part ''ok'']]]
   \<and> role \<lparr>role = ''system'', content = ''be brief''\<rparr> \<noteq> ''assistant''
   \<and> gemini_role (geminiMessage \<lparr>role = ''system'', content = ''be brief''\<rparr>) = ''user''"
  using gemini_role_total [of claudeEnv "\<lambda>req. Resolved claudeReply"
      "[\<lparr>role = ''system'', content = ''be brief''\<rparr>, \<lparr>role = ''assistant'', content = ''ok''\<rparr>]"
      "\<lparr>role = ''system'', content = ''be brief''\<rparr>"]
  by (simp add: geminiMessage_def)

end
